theory Spec2Isabelle
  imports Main "HOL-Library.Sublist"
begin

section \<open>Strings\<close>

text \<open>
  A Python \<open>str\<close> is a sequence of Unicode code points. The templates of
  \<open>prompts.py\<close> hold code points beyond Latin-1 (U+2018, U+2019), and the
  class \<open>\d\<close> of the pattern in \<open>valence.py\<close> is defined on code points, so
  a string is modelled as a list of code points, each a natural number.
  \<open>str\<close> turns an ASCII literal into such a list.
\<close>

type_synonym codepoint = nat
type_synonym pystr = "codepoint list"

definition str :: "string \<Rightarrow> pystr" where
  "str s = map of_char s"

text \<open>
  In a \<open>str\<close> pattern, \<open>\d\<close> matches the characters of Unicode category Nd,
  and \<open>int\<close> reads each of them as its decimal value. The category is a union
  of blocks of ten consecutive code points with the values 0 to 9 in order;
  \<open>nd_zeros\<close> lists the first code point of every block (Unicode 14.0, in
  ascending order). The table belongs to the interpreter, not to the
  repository; the theorems below need of it only that the ASCII digits are
  in it with their usual values and that the brackets and the minus sign
  are not.
\<close>

definition nd_zeros :: "codepoint list" where
  "nd_zeros =
    [48, 1632, 1776, 1984, 2406, 2534, 2662, 2790, 2918, 3046, 3174, 3302,
     3430, 3558, 3664, 3792, 3872, 4160, 4240, 6112, 6160, 6470, 6608, 6784,
     6800, 6992, 7088, 7232, 7248, 42528, 43216, 43264, 43472, 43504, 43600,
     44016, 65296, 66720, 68912, 69734, 69872, 69942, 70096, 70384, 70736,
     70864, 71248, 71360, 71472, 71904, 72016, 72784, 73040, 73120, 92768,
     92864, 93008, 120782, 120792, 120802, 120812, 120822, 123200, 123632,
     125264, 130032]"

fun block_zero :: "codepoint list \<Rightarrow> codepoint \<Rightarrow> codepoint option" where
  "block_zero [] c = None"
| "block_zero (z # zs) c =
     (if c < z then None else if c < z + 10 then Some z else block_zero zs c)"

definition is_decimal :: "codepoint \<Rightarrow> bool" where
  "is_decimal c = (block_zero nd_zeros c \<noteq> None)"

definition decimal_value :: "codepoint \<Rightarrow> nat" where
  "decimal_value c = (case block_zero nd_zeros c of Some z \<Rightarrow> c - z | None \<Rightarrow> 0)"

text \<open>
  The errors the rater raises: the two \<open>RuntimeError\<close>s of lines 70 and 74,
  whatever the completion call of line 85 raises (with its message), the
  \<open>ValueError\<close> of line 98, which shows the content it could not parse, and
  the \<open>ValueError\<close> that \<open>int\<close> raises at line 100 for a string of too many
  digits (with the limit and the number of digits, as in its message).
\<close>

datatype error =
    SDKUnavailable
  | MissingCredential
  | CompletionError pystr
  | ParseError "pystr option"
  | DigitLimitError nat nat

text \<open>
  \<open>int(s)\<close> for a string \<open>s\<close> of decimal digits, the only strings the rater
  passes to it (group 1 of a match of \<open>\d+\<close>). \<open>digits_value\<close> is the number
  the digits denote; Python's integers are unbounded. CPython refuses the
  conversion of a string of more than 640 digits when the interpreter's
  setting \<open>int_max_str_digits\<close> is not 0 and the string has more digits than
  it says (leading zeros count). The setting is 4300 unless changed, can be
  0 or at least 640, and interpreters older than the limit behave as with 0;
  it is a parameter here.
\<close>

definition digits_value :: "pystr \<Rightarrow> int" where
  "digits_value s = foldl (\<lambda>acc c. 10 * acc + int (decimal_value c)) 0 s"

definition int_limit_exceeded :: "nat \<Rightarrow> pystr \<Rightarrow> bool" where
  "int_limit_exceeded max_str_digits s =
     (640 < length s \<and> 0 < max_str_digits \<and> max_str_digits < length s)"

definition py_int :: "nat \<Rightarrow> pystr \<Rightarrow> error + int" where
  "py_int max_str_digits s =
     (if int_limit_exceeded max_str_digits s
      then Inl (DigitLimitError max_str_digits (length s))
      else Inr (digits_value s))"

section \<open>The rating pattern\<close>

text \<open>
  \<open>re.search(r"\[(\d+)\]", s)\<close> tries the pattern at every start position
  from the left and returns the first match. At one position the pattern
  needs \<open>[\<close>, then takes the longest run of digits (the quantifier is
  greedy), then needs \<open>]\<close>; a shorter run cannot match, since the character
  after it is a digit. \<open>match_here\<close> is the attempt at the start of its
  argument and returns group 1; \<open>re_search\<close> is the scan.
\<close>

definition match_here :: "pystr \<Rightarrow> pystr option" where
  "match_here s =
     (case s of
        [] \<Rightarrow> None
      | c # rest \<Rightarrow>
          if c = 91 then
            (case dropWhile is_decimal rest of
               [] \<Rightarrow> None
             | r # _ \<Rightarrow>
                 if takeWhile is_decimal rest \<noteq> [] \<and> r = 93
                 then Some (takeWhile is_decimal rest) else None)
          else None)"

fun re_search :: "pystr \<Rightarrow> pystr option" where
  "re_search [] = None"
| "re_search (c # cs) =
     (case match_here (c # cs) of
        Some g \<Rightarrow> Some g
      | None \<Rightarrow> re_search cs)"

text \<open>
  What the pattern means, independently of the scan: \<open>bracketed_at s n ds\<close>
  says that at position \<open>n\<close> of \<open>s\<close> there is a \<open>[\<close>, the non-empty digit
  string \<open>ds\<close> and a \<open>]\<close>.
\<close>

definition bracketed_at :: "pystr \<Rightarrow> nat \<Rightarrow> pystr \<Rightarrow> bool" where
  "bracketed_at s n ds =
     (ds \<noteq> [] \<and> list_all is_decimal ds \<and>
      take (length ds + 2) (drop n s) = 91 # ds @ [93])"


section \<open>Prompt builder (prompts.py)\<close>

text \<open>
  \<open>build_prompts(text, lang)\<close>. Adjacent literals are concatenated and the
  f-string puts \<open>text\<close> in as it is. A line feed is 10; 8216 and 8217 are the
  single quotation marks around the question, 233 is the letter e with an
  acute accent. The parameter is called \<open>txt\<close> here, \<open>text\<close> being a field
  of the entries below.
\<close>

definition build_prompts :: "pystr \<Rightarrow> pystr \<Rightarrow> pystr \<times> pystr" where
  "build_prompts txt lang =
     (if lang = str ''nl'' then
        (str ''Je bent een expert in de Nederlandse taal die de valentie van Belgisch-Nederlandse teksten analyseert.'',
         str ''Deelnemers reageerden op:'' @ [10] @
         [8216] @ str ''Wat gebeurt er nu of sinds de vorige prompt, en hoe voel je je daarbij?'' @ [8217] @ [10] @
         str ''Lees de reactie van de deelnemer zorgvuldig: '' @ txt @ [10] @
         str ''Jouw taak is om het sentiment te beoordelen van 1 (zeer negatief) tot 7 (zeer positief). '' @
         str ''Geef ALLEEN '' @ [233] @ [233] @ str ''n numerieke beoordeling terug, ingesloten tussen vierkante haken, bijvoorbeeld [X], zonder aanvullende tekst.'' @ [10] @
         str ''Uitvoerformaat: [getal]'')
      else
        (str ''You are a Dutch language expert analyzing the valence of Belgian Dutch texts.'',
         str ''Participants responded to:'' @ [10] @
         [8216] @ str ''What is going on now or since the last prompt, and how do you feel about it?'' @ [8217] @ [10] @
         str ''Carefully read the response of the participant: '' @ txt @ [10] @
         str ''Your task is to rate its sentiment from 1 (very negative) to 7 (very positive).'' @ [10] @
         str ''Return ONLY a single numerical rating enclosed in brackets, e.g. [X], with no additional text.'' @ [10] @
         str ''Output Format: [number]''))"

section \<open>Dictionaries\<close>

text \<open>
  A Python \<open>dict\<close> keeps its keys in insertion order, and \<open>rate_all_texts\<close>
  iterates over one, so a dictionary is a list of key-value pairs in that
  order. \<open>d[k] = v\<close> replaces the value where \<open>k\<close> is present, leaving its
  position, and appends the pair otherwise.
\<close>

type_synonym ('k, 'v) dict = "('k \<times> 'v) list"

fun dict_setitem :: "('k, 'v) dict \<Rightarrow> 'k \<Rightarrow> 'v \<Rightarrow> ('k, 'v) dict" where
  "dict_setitem [] k v = [(k, v)]"
| "dict_setitem ((k', v') # d) k v =
     (if k' = k then (k', v) # d else (k', v') # dict_setitem d k v)"

definition dict_get :: "('k, 'v) dict \<Rightarrow> 'k \<Rightarrow> 'v option" where
  "dict_get d k = map_of d k"

definition dict_keys :: "('k, 'v) dict \<Rightarrow> 'k list" where
  "dict_keys d = map fst d"

section \<open>Grouper (valence.py, lines 21 to 54)\<close>

text \<open>
  The value stored for a score is a dictionary with the two keys
  \<open>heading\<close> and \<open>text\<close>; a \<open>SentimentEntry\<close> has these two and
  \<open>sentiment\<close>, so it is the record of the stored value with one more
  field. \<open>int(entry["sentiment"])\<close> is the identity on the integers the
  entry type declares.
\<close>

record Payload =
  heading :: pystr
  "text" :: pystr

record SentimentEntry = Payload +
  sentiment :: int

fun organize_loop ::
  "SentimentEntry list \<Rightarrow> (int, Payload) dict \<Rightarrow> (int, Payload) dict" where
  "organize_loop [] organized = organized"
| "organize_loop (entry # entries) organized =
     (let score = sentiment entry in
      organize_loop entries
        (dict_setitem organized score
           \<lparr>heading = heading entry, text = text entry\<rparr>))"

definition organize_sentiments_by_score ::
  "SentimentEntry list \<Rightarrow> (int, Payload) dict" where
  "organize_sentiments_by_score entries = organize_loop entries []"

section \<open>Rater (valence.py, lines 57 to 105)\<close>

text \<open>
  The client object holds what the constructor was given; the request holds
  the arguments of \<open>client.chat.completions.create\<close>, a message being its
  role and its content; of a response the rater reads the list of choices
  and, of a choice, \<open>message.content\<close>, which may be \<open>None\<close>.
\<close>

record client =
  api_key :: pystr
  base_url :: "pystr option"

record request =
  req_model :: pystr
  req_temperature :: int
  req_messages :: "(pystr \<times> pystr) list"

record choice =
  message_content :: "pystr option"

record response =
  choices :: "choice list"

text \<open>
  The completion service is outside the program. An \<open>endpoint\<close> says what one
  call returns (\<open>Inr\<close>) or raises (\<open>Inl\<close>, the message), given the calls made
  before it, so the service may answer the same request differently the next
  time. The rater records every call it makes in that list. A \<open>platform\<close> is
  what the rater's module sees around it: whether the import of the SDK
  succeeded (\<open>OpenAI is not None\<close>), the process environment, the service,
  and the interpreter's limit on the digits of \<open>int\<close>.
\<close>

type_synonym call = "client \<times> request"

type_synonym endpoint = "call list \<Rightarrow> client \<Rightarrow> request \<Rightarrow> pystr + response"

record platform =
  sdk_present :: bool
  environ :: "pystr \<rightharpoonup> pystr"
  completions_create :: endpoint
  int_max_str_digits :: nat

text \<open>\<open>os.getenv(key, default)\<close>: the value of a variable that is set, also when it
  is empty, and the default otherwise.\<close>

definition getenv_default :: "(pystr \<rightharpoonup> pystr) \<Rightarrow> pystr \<Rightarrow> pystr \<Rightarrow> pystr" where
  "getenv_default env k dflt = (case env k of Some v \<Rightarrow> v | None \<Rightarrow> dflt)"

text \<open>
  Lines 72 to 81: the client for the runtime. In the cloud branch,
  \<open>not os.getenv("OPENAI_API_KEY")\<close> holds for a variable that is not set and
  for one set to the empty string; past this test \<open>os.environ\<close> has the key.
  \<open>if base_url\<close> fails in the same two cases, and then the constructor is
  given no base address. Every runtime other than \<open>cloud\<close> takes the other
  branch.
\<close>

definition make_client :: "(pystr \<rightharpoonup> pystr) \<Rightarrow> pystr \<Rightarrow> error + client" where
  "make_client env runtime =
     (if runtime = str ''cloud'' then
        (case env (str ''OPENAI_API_KEY'') of
           None \<Rightarrow> Inl MissingCredential
         | Some key \<Rightarrow>
             if key = [] then Inl MissingCredential
             else
               (case env (str ''OPENAI_BASE_URL'') of
                  None \<Rightarrow> Inr \<lparr>api_key = key, base_url = None\<rparr>
                | Some url \<Rightarrow>
                    if url \<noteq> [] then Inr \<lparr>api_key = key, base_url = Some url\<rparr>
                    else Inr \<lparr>api_key = key, base_url = None\<rparr>))
      else
        (let local_base_url =
               getenv_default env (str ''LOCAL_OPENAI_BASE_URL'') (str ''http://localhost:8000/v1'');
             local_api_key =
               getenv_default env (str ''OPENAI_API_KEY'')
                 (getenv_default env (str ''LOCAL_OPENAI_API_KEY'') (str ''sk-local''))
         in Inr \<lparr>api_key = local_api_key, base_url = Some local_base_url\<rparr>))"

text \<open>Lines 85 to 92: the request.\<close>

definition chat_request :: "pystr \<Rightarrow> pystr \<Rightarrow> pystr \<Rightarrow> request" where
  "chat_request model system_prompt user_prompt =
     \<lparr>req_model = model, req_temperature = 0,
      req_messages = [(str ''system'', system_prompt), (str ''user'', user_prompt)]\<rparr>"

text \<open>Line 93: the content of the first choice, the empty string without one.\<close>

definition extract_content :: "response \<Rightarrow> pystr option" where
  "extract_content r =
     (case choices r of [] \<Rightarrow> Some [] | c # _ \<Rightarrow> message_content c)"

text \<open>\<open>content or ""\<close>: \<open>None\<close> and the empty string both give the empty string.\<close>

definition or_empty :: "pystr option \<Rightarrow> pystr" where
  "or_empty content = (case content of None \<Rightarrow> [] | Some s \<Rightarrow> s)"

text \<open>
  Lines 96 to 105: searching the content, converting group 1 and clamping.
  An error of \<open>int\<close> is not caught and reaches the caller.
\<close>

definition parse_rating :: "nat \<Rightarrow> pystr option \<Rightarrow> error + int" where
  "parse_rating max_str_digits content =
     (case re_search (or_empty content) of
        None \<Rightarrow> Inl (ParseError content)
      | Some group1 \<Rightarrow>
          (case py_int max_str_digits group1 of
             Inl e \<Rightarrow> Inl e
           | Inr rating \<Rightarrow>
               if rating < 1 then Inr 1
               else if rating > 7 then Inr 7
               else Inr rating))"

definition rate_sentiment_with_openai_api ::
  "platform \<Rightarrow> pystr \<Rightarrow> pystr \<Rightarrow> pystr \<Rightarrow> pystr \<Rightarrow> call list
     \<Rightarrow> (error + int) \<times> call list" where
  "rate_sentiment_with_openai_api P txt model runtime lang calls =
     (if \<not> sdk_present P then (Inl SDKUnavailable, calls)
      else
        (case make_client (environ P) runtime of
           Inl e \<Rightarrow> (Inl e, calls)
         | Inr cl \<Rightarrow>
             (case build_prompts txt lang of
                (system_prompt, user_prompt) \<Rightarrow>
                  (let req = chat_request model system_prompt user_prompt in
                   case completions_create P calls cl req of
                     Inl msg \<Rightarrow> (Inl (CompletionError msg), calls @ [(cl, req)])
                   | Inr resp \<Rightarrow>
                       (parse_rating (int_max_str_digits P) (extract_content resp),
                        calls @ [(cl, req)])))))"

section \<open>Batch rater (valence.py, lines 108 to 123)\<close>

text \<open>
  The loop over \<open>organized.items()\<close>, with the results built so far and the
  calls made so far. An error of the rater ends the loop: the results are
  dropped and the error is what the caller gets.
\<close>

fun rate_all_loop ::
  "platform \<Rightarrow> pystr \<Rightarrow> pystr \<Rightarrow> (int, Payload) dict \<Rightarrow> (int, int) dict \<Rightarrow> call list
     \<Rightarrow> (error + (int, int) dict) \<times> call list" where
  "rate_all_loop P runtime lang [] results calls = (Inr results, calls)"
| "rate_all_loop P runtime lang ((score, payload) # rest) results calls =
     (case rate_sentiment_with_openai_api P (text payload) (str ''gpt-4o-mini'')
             runtime lang calls of
        (Inl e, calls') \<Rightarrow> (Inl e, calls')
      | (Inr predicted, calls') \<Rightarrow>
          rate_all_loop P runtime lang rest (dict_setitem results score predicted) calls')"

definition rate_all_texts ::
  "platform \<Rightarrow> (int, Payload) dict \<Rightarrow> pystr \<Rightarrow> pystr \<Rightarrow> call list
     \<Rightarrow> (error + (int, int) dict) \<times> call list" where
  "rate_all_texts P organized runtime lang calls =
     rate_all_loop P runtime lang organized [] calls"

text \<open>The request the rater sends for one text, as the batch rater calls it.\<close>

definition request_for :: "pystr \<Rightarrow> pystr \<Rightarrow> pystr \<Rightarrow> request" where
  "request_for model txt lang =
     (case build_prompts txt lang of (s, u) \<Rightarrow> chat_request model s u)"

section \<open>A stub service for the examples\<close>

text \<open>
  For running the rater on a given response: the SDK is present, the
  environment is empty, the service answers every request with the same
  response, and the limit of \<open>int\<close> is the interpreter's default.
  \<open>reply s\<close> is a response of one choice whose content is \<open>s\<close>.
\<close>

definition answering :: "response \<Rightarrow> platform" where
  "answering resp =
     \<lparr>sdk_present = True, environ = Map.empty,
      completions_create = (\<lambda>calls cl req. Inr resp),
      int_max_str_digits = 4300\<rparr>"

definition reply :: "pystr \<Rightarrow> response" where
  "reply s = \<lparr>choices = [\<lparr>message_content = Some s\<rparr>]\<rparr>"

text \<open>
  A service that answers the first request with the content \<open>[6]\<close> and
  raises on the second one.
\<close>

definition flaky :: platform where
  "flaky =
     \<lparr>sdk_present = True, environ = Map.empty,
      completions_create =
        (\<lambda>calls cl req. if length calls = 1 then Inl (str ''timed out'')
                          else Inr (reply (str ''[6]''))),
      int_max_str_digits = 4300\<rparr>"

section \<open>Helper lemmas on the pattern\<close>

lemma not_decimal_93: "\<not> is_decimal 93"
  by (simp add: is_decimal_def nd_zeros_def)

lemma not_decimal_91: "\<not> is_decimal 91"
  by (simp add: is_decimal_def nd_zeros_def)

lemma not_decimal_45: "\<not> is_decimal 45"
  by (simp add: is_decimal_def nd_zeros_def)

lemma is_decimal_ascii: "c < 1632 \<Longrightarrow> is_decimal c = (48 \<le> c \<and> c < 58)"
  by (auto simp add: is_decimal_def nd_zeros_def)

lemma decimal_value_ascii: "48 \<le> c \<Longrightarrow> c < 58 \<Longrightarrow> decimal_value c = c - 48"
  by (simp add: decimal_value_def nd_zeros_def)

lemma bracketed_at_Suc: "bracketed_at (c # cs) (Suc n) ds = bracketed_at cs n ds"
  by (simp add: bracketed_at_def)

lemma bracketed_at_0_decomp:
  "bracketed_at s 0 ds \<longleftrightarrow>
     ds \<noteq> [] \<and> list_all is_decimal ds \<and> (\<exists>post. s = 91 # ds @ 93 # post)"
proof
  assume h: "bracketed_at s 0 ds"
  then have t: "take (length ds + 2) s = 91 # ds @ [93]"
    by (simp add: bracketed_at_def)
  have "s = take (length ds + 2) s @ drop (length ds + 2) s" by simp
  with t have "s = 91 # ds @ 93 # drop (length ds + 2) s" by simp
  with h show "ds \<noteq> [] \<and> list_all is_decimal ds \<and> (\<exists>post. s = 91 # ds @ 93 # post)"
    by (auto simp: bracketed_at_def)
next
  assume "ds \<noteq> [] \<and> list_all is_decimal ds \<and> (\<exists>post. s = 91 # ds @ 93 # post)"
  then show "bracketed_at s 0 ds"
    by (auto simp: bracketed_at_def)
qed

lemma match_here_iff: "match_here s = Some ds \<longleftrightarrow> bracketed_at s 0 ds"
proof
  assume m: "match_here s = Some ds"
  then obtain rest where s: "s = 91 # rest"
    by (cases s) (auto simp: match_here_def split: if_splits)
  from m s obtain post where d: "dropWhile is_decimal rest = 93 # post"
    and ds: "ds = takeWhile is_decimal rest" and ne: "ds \<noteq> []"
    by (auto simp: match_here_def split: list.splits if_splits)
  have "rest = takeWhile is_decimal rest @ dropWhile is_decimal rest" by simp
  with d ds have "rest = ds @ 93 # post" by simp
  moreover have "list_all is_decimal ds"
    unfolding ds list_all_iff by (auto dest: set_takeWhileD)
  ultimately show "bracketed_at s 0 ds"
    using s ne by (auto simp: bracketed_at_0_decomp)
next
  assume "bracketed_at s 0 ds"
  then obtain post where ne: "ds \<noteq> []" and dec: "list_all is_decimal ds"
    and s: "s = 91 # ds @ 93 # post"
    by (auto simp: bracketed_at_0_decomp)
  from dec have a: "\<And>x. x \<in> set ds \<Longrightarrow> is_decimal x" by (simp add: list_all_iff)
  have "takeWhile is_decimal (ds @ 93 # post) = ds"
    using a by (simp add: takeWhile_append2 not_decimal_93)
  moreover have "dropWhile is_decimal (ds @ 93 # post) = 93 # post"
    using a by (simp add: dropWhile_append2 not_decimal_93)
  ultimately show "match_here s = Some ds"
    using s ne by (simp add: match_here_def)
qed

lemma match_here_None_iff: "match_here s = None \<longleftrightarrow> (\<forall>ds. \<not> bracketed_at s 0 ds)"
  using match_here_iff [of s] by (cases "match_here s") auto

lemma re_search_Some_iff:
  "re_search s = Some ds \<longleftrightarrow>
     (\<exists>n. bracketed_at s n ds \<and> (\<forall>m<n. \<forall>ds'. \<not> bracketed_at s m ds'))"
proof (induction s)
  case Nil
  show ?case by (auto simp: bracketed_at_def)
next
  case (Cons c cs)
  show ?case
  proof (cases "match_here (c # cs)")
    case (Some g)
    then have g: "bracketed_at (c # cs) 0 g" by (simp add: match_here_iff)
    have "(\<exists>n. bracketed_at (c # cs) n ds \<and> (\<forall>m<n. \<forall>ds'. \<not> bracketed_at (c # cs) m ds'))
            \<longleftrightarrow> bracketed_at (c # cs) 0 ds"
    proof
      assume "\<exists>n. bracketed_at (c # cs) n ds \<and> (\<forall>m<n. \<forall>ds'. \<not> bracketed_at (c # cs) m ds')"
      then obtain n where n: "bracketed_at (c # cs) n ds"
        and mn: "\<forall>m<n. \<forall>ds'. \<not> bracketed_at (c # cs) m ds'" by blast
      have "n = 0"
      proof (rule ccontr)
        assume "n \<noteq> 0"
        then have "0 < n" by simp
        with mn g show False by blast
      qed
      with n show "bracketed_at (c # cs) 0 ds" by simp
    next
      assume "bracketed_at (c # cs) 0 ds"
      then show "\<exists>n. bracketed_at (c # cs) n ds \<and> (\<forall>m<n. \<forall>ds'. \<not> bracketed_at (c # cs) m ds')"
        by (intro exI [of _ 0]) simp
    qed
    also have "\<dots> \<longleftrightarrow> g = ds"
      using Some match_here_iff [of "c # cs" ds] by auto
    finally show ?thesis using Some by simp
  next
    case None
    then have no: "\<And>ds'. \<not> bracketed_at (c # cs) 0 ds'"
      by (simp add: match_here_None_iff)
    have "(\<exists>n. bracketed_at (c # cs) n ds \<and> (\<forall>m<n. \<forall>ds'. \<not> bracketed_at (c # cs) m ds'))
            \<longleftrightarrow> (\<exists>n. bracketed_at cs n ds \<and> (\<forall>m<n. \<forall>ds'. \<not> bracketed_at cs m ds'))"
      (is "?L \<longleftrightarrow> ?R")
    proof
      assume ?L
      then obtain n where n: "bracketed_at (c # cs) n ds"
        and mn: "\<forall>m<n. \<forall>ds'. \<not> bracketed_at (c # cs) m ds'" by blast
      from n no obtain k where k: "n = Suc k" by (cases n) auto
      have "bracketed_at cs k ds" using n k by (simp add: bracketed_at_Suc)
      moreover have "\<forall>m<k. \<forall>ds'. \<not> bracketed_at cs m ds'"
      proof (intro allI impI)
        fix m ds' assume "m < k"
        then have "Suc m < n" using k by simp
        with mn have "\<not> bracketed_at (c # cs) (Suc m) ds'" by blast
        then show "\<not> bracketed_at cs m ds'" by (simp add: bracketed_at_Suc)
      qed
      ultimately show ?R by blast
    next
      assume ?R
      then obtain k where k: "bracketed_at cs k ds"
        and mk: "\<forall>m<k. \<forall>ds'. \<not> bracketed_at cs m ds'" by blast
      have "bracketed_at (c # cs) (Suc k) ds" using k by (simp add: bracketed_at_Suc)
      moreover have "\<forall>m<Suc k. \<forall>ds'. \<not> bracketed_at (c # cs) m ds'"
      proof (intro allI impI)
        fix m ds' assume lt: "m < Suc k"
        show "\<not> bracketed_at (c # cs) m ds'"
        proof (cases m)
          case 0 then show ?thesis using no by simp
        next
          case (Suc j)
          then have "j < k" using lt by simp
          with mk have "\<not> bracketed_at cs j ds'" by blast
          then show ?thesis using Suc by (simp add: bracketed_at_Suc)
        qed
      qed
      ultimately show ?L by blast
    qed
    then show ?thesis using None Cons.IH by simp
  qed
qed


section \<open>Helper lemmas on dictionaries and the grouper\<close>

lemma keys_setitem: "fst ` set (dict_setitem d k v) = insert k (fst ` set d)"
proof (induction d)
  case Nil
  show ?case by simp
next
  case (Cons p d)
  then show ?case by (cases p) (simp add: insert_commute)
qed

lemma map_of_setitem: "map_of (dict_setitem d k v) = (map_of d)(k \<mapsto> v)"
  by (induction d) (auto simp: fun_eq_iff)

lemma distinct_setitem: "distinct (map fst d) \<Longrightarrow> distinct (map fst (dict_setitem d k v))"
  by (induction d) (auto simp: keys_setitem)

lemma organize_loop_append:
  "organize_loop (xs @ ys) d = organize_loop ys (organize_loop xs d)"
  by (induction xs arbitrary: d) (simp_all add: Let_def)

lemma organize_loop_keys:
  "fst ` set (organize_loop es d) = fst ` set d \<union> sentiment ` set es"
  by (induction es arbitrary: d) (auto simp: Let_def keys_setitem)

lemma organize_loop_distinct:
  "distinct (map fst d) \<Longrightarrow> distinct (map fst (organize_loop es d))"
  by (induction es arbitrary: d) (simp_all add: Let_def distinct_setitem)

lemma organize_loop_other:
  "k \<notin> sentiment ` set es \<Longrightarrow> map_of (organize_loop es d) k = map_of d k"
  by (induction es arbitrary: d) (auto simp: Let_def map_of_setitem)


section \<open>Helper lemmas on the rater\<close>

lemma digits_value_fold_nonneg:
  "0 \<le> a \<Longrightarrow> 0 \<le> foldl (\<lambda>acc c. 10 * acc + int (decimal_value c)) a s"
  by (induction s arbitrary: a) auto

lemma digits_value_fold_zero:
  "0 \<le> a \<Longrightarrow>
   foldl (\<lambda>acc c. 10 * acc + int (decimal_value c)) a s = 0
     \<longleftrightarrow> a = 0 \<and> list_all (\<lambda>c. decimal_value c = 0) s"
proof (induction s arbitrary: a)
  case Nil
  show ?case by simp
next
  case (Cons c s)
  have "0 \<le> 10 * a + int (decimal_value c)" using Cons.prems by simp
  from Cons.IH [OF this] Cons.prems show ?case by auto
qed

lemma digits_value_zero_iff: "digits_value s = 0 \<longleftrightarrow> list_all (\<lambda>c. decimal_value c = 0) s"
  using digits_value_fold_zero [of 0 s] by (simp add: digits_value_def)

lemma py_int_short: "length s \<le> 640 \<Longrightarrow> py_int lim s = Inr (digits_value s)"
  by (simp add: py_int_def int_limit_exceeded_def)

lemma parse_rating_found:
  "re_search (or_empty c) = Some g \<Longrightarrow>
   parse_rating lim c =
     (if int_limit_exceeded lim g then Inl (DigitLimitError lim (length g))
      else Inr (if digits_value g < 1 then 1
                else if 7 < digits_value g then 7 else digits_value g))"
  by (simp add: parse_rating_def py_int_def)

lemma parse_rating_not_found:
  "re_search (or_empty c) = None \<Longrightarrow> parse_rating lim c = Inl (ParseError c)"
  by (simp add: parse_rating_def)

lemma parse_rating_Inr:
  "parse_rating lim c = Inr r \<longleftrightarrow>
     (\<exists>g. re_search (or_empty c) = Some g \<and> \<not> int_limit_exceeded lim g \<and>
          r = (if digits_value g < 1 then 1
               else if 7 < digits_value g then 7 else digits_value g))"
proof (cases "re_search (or_empty c)")
  case None
  then show ?thesis by (simp add: parse_rating_not_found)
next
  case (Some g)
  then show ?thesis by (auto simp: parse_rating_found)
qed


lemma rater_run:
  assumes "sdk_present P" and "make_client (environ P) runtime = Inr cl"
  shows "rate_sentiment_with_openai_api P txt model runtime lang calls =
           ((case completions_create P calls cl (request_for model txt lang) of
               Inl msg \<Rightarrow> Inl (CompletionError msg)
             | Inr resp \<Rightarrow> parse_rating (int_max_str_digits P) (extract_content resp)),
            calls @ [(cl, request_for model txt lang)])"
  using assms
  by (simp add: rate_sentiment_with_openai_api_def request_for_def Let_def
      split: prod.splits sum.splits)

lemma rater_no_sdk:
  "\<not> sdk_present P \<Longrightarrow>
   rate_sentiment_with_openai_api P txt model runtime lang calls = (Inl SDKUnavailable, calls)"
  by (simp add: rate_sentiment_with_openai_api_def)

lemma rater_no_client:
  "sdk_present P \<Longrightarrow> make_client (environ P) runtime = Inl e \<Longrightarrow>
   rate_sentiment_with_openai_api P txt model runtime lang calls = (Inl e, calls)"
  by (simp add: rate_sentiment_with_openai_api_def)


lemma rater_Inr:
  assumes "rate_sentiment_with_openai_api P txt model runtime lang calls = (Inr r, calls')"
  shows "sdk_present P \<and>
         (\<exists>cl resp. make_client (environ P) runtime = Inr cl \<and>
            completions_create P calls cl (request_for model txt lang) = Inr resp \<and>
            parse_rating (int_max_str_digits P) (extract_content resp) = Inr r \<and>
            calls' = calls @ [(cl, request_for model txt lang)])"
proof -
  have sdk: "sdk_present P"
    using assms by (auto simp: rater_no_sdk intro: ccontr)
  obtain cl where cl: "make_client (environ P) runtime = Inr cl"
    using assms sdk by (cases "make_client (environ P) runtime") (auto simp: rater_no_client)
  from assms show ?thesis
    unfolding rater_run [OF sdk cl] using sdk cl
    by (auto split: sum.splits)
qed


lemma local_not_cloud: "str ''local'' \<noteq> str ''cloud''"
  by (simp add: str_def)

lemma make_client_local:
  "runtime \<noteq> str ''cloud'' \<Longrightarrow>
   make_client env runtime =
     Inr \<lparr>api_key = getenv_default env (str ''OPENAI_API_KEY'')
                       (getenv_default env (str ''LOCAL_OPENAI_API_KEY'') (str ''sk-local'')),
          base_url = Some (getenv_default env (str ''LOCAL_OPENAI_BASE_URL'')
                       (str ''http://localhost:8000/v1''))\<rparr>"
  by (simp add: make_client_def Let_def)

lemma answering_run:
  "runtime \<noteq> str ''cloud'' \<Longrightarrow>
   fst (rate_sentiment_with_openai_api (answering resp) txt model runtime lang calls)
     = parse_rating 4300 (extract_content resp)"
proof -
  assume rt: "runtime \<noteq> str ''cloud''"
  have sdk: "sdk_present (answering resp)" by (simp add: answering_def)
  have cr: "completions_create (answering resp) = (\<lambda>calls cl req. Inr resp)"
    by (simp add: answering_def)
  show ?thesis
    unfolding rater_run [OF sdk make_client_local [OF rt]]
    by (simp add: cr answering_def)
qed

lemma extract_reply: "extract_content (reply s) = Some s"
  by (simp add: extract_content_def reply_def)

lemma re_search_digits_then_close:
  "list_all is_decimal ds \<Longrightarrow> re_search (ds @ [93]) = None"
proof (induction ds)
  case Nil
  show ?case by (simp add: match_here_def)
next
  case (Cons d ds)
  then have "d \<noteq> 91" using not_decimal_91 by auto
  then have "match_here (d # ds @ [93]) = None" by (simp add: match_here_def)
  with Cons show ?case by simp
qed

lemma re_search_minus:
  assumes "list_all is_decimal ds"
  shows "re_search (91 # 45 # ds @ [93]) = None"
proof -
  have "match_here (91 # 45 # ds @ [93]) = None"
    by (simp add: match_here_def not_decimal_45)
  moreover have "match_here (45 # ds @ [93]) = None"
    by (simp add: match_here_def)
  ultimately show ?thesis
    using re_search_digits_then_close [OF assms] by simp
qed

lemma re_search_group_digits: "re_search s = Some g \<Longrightarrow> g \<noteq> [] \<and> list_all is_decimal g"
  by (auto simp: re_search_Some_iff bracketed_at_def)

lemma parse_0: "parse_rating 4300 (Some (str ''[0]'')) = Inr 1"
  by (simp add: parse_rating_def or_empty_def str_def match_here_def is_decimal_ascii
      py_int_def int_limit_exceeded_def digits_value_def decimal_value_ascii)
lemma parse_9: "parse_rating 4300 (Some (str ''[9]'')) = Inr 7"
  by (simp add: parse_rating_def or_empty_def str_def match_here_def is_decimal_ascii
      py_int_def int_limit_exceeded_def digits_value_def decimal_value_ascii)
lemma parse_5: "parse_rating 4300 (Some (str ''[5]'')) = Inr 5"
  by (simp add: parse_rating_def or_empty_def str_def match_here_def is_decimal_ascii
      py_int_def int_limit_exceeded_def digits_value_def decimal_value_ascii)






lemma group_no_minus: "re_search s = Some g \<Longrightarrow> 45 \<notin> set g"
proof
  assume "re_search s = Some g" and "45 \<in> set g"
  then have "is_decimal 45"
    using re_search_group_digits [of s g] by (auto simp: list_all_iff)
  then show False by (simp add: not_decimal_45)
qed

lemma str_minus_3: "str ''[-3]'' = 91 # 45 # str ''3'' @ [93]"
  by (simp add: str_def)

lemma decimal_3: "list_all is_decimal (str ''3'')"
  by (simp add: str_def is_decimal_ascii)

lemma parse_00: "parse_rating 4300 (Some (str ''[00]'')) = Inr 1"
  by (simp add: parse_rating_def or_empty_def str_def match_here_def is_decimal_ascii
      py_int_def int_limit_exceeded_def digits_value_def decimal_value_ascii)






section \<open>Helper lemmas on the batch rater\<close>

lemma rate_all_loop_append:
  "rate_all_loop P runtime lang (xs @ ys) results calls =
     (case rate_all_loop P runtime lang xs results calls of
        (Inl e, calls') \<Rightarrow> (Inl e, calls')
      | (Inr res, calls') \<Rightarrow> rate_all_loop P runtime lang ys res calls')"
proof (induction xs arbitrary: results calls)
  case Nil
  show ?case by simp
next
  case (Cons x xs)
  obtain k p where x: "x = (k, p)" by (cases x)
  show ?case
    unfolding x by (simp add: Cons.IH split: prod.splits sum.splits)
qed

lemma rater_calls:
  "snd (rate_sentiment_with_openai_api P txt model runtime lang calls) = calls \<or>
   (\<exists>cl. snd (rate_sentiment_with_openai_api P txt model runtime lang calls)
            = calls @ [(cl, request_for model txt lang)])"
proof (cases "sdk_present P")
  case False
  then show ?thesis by (simp add: rater_no_sdk)
next
  case sdk: True
  show ?thesis
  proof (cases "make_client (environ P) runtime")
    case (Inl e)
    then show ?thesis using sdk by (simp add: rater_no_client)
  next
    case (Inr cl)
    show ?thesis unfolding rater_run [OF sdk Inr] by simp
  qed
qed

lemma rate_all_loop_requests:
  "rate_all_loop P runtime lang xs results calls = (Inr res, calls1) \<Longrightarrow>
   \<exists>new. calls1 = calls @ new \<and>
     map snd new = map (\<lambda>kp. request_for (str ''gpt-4o-mini'') (text (snd kp)) lang) xs"
proof (induction xs arbitrary: results calls)
  case Nil
  then show ?case by simp
next
  case (Cons x xs)
  obtain k p where x: "x = (k, p)" by (cases x)
  from Cons.prems obtain r c0 where
    r: "rate_sentiment_with_openai_api P (text p) (str ''gpt-4o-mini'') runtime lang calls
          = (Inr r, c0)" and
    rest: "rate_all_loop P runtime lang xs (dict_setitem results k r) c0 = (Inr res, calls1)"
    unfolding x by (auto split: prod.splits sum.splits)
  from rater_Inr [OF r] obtain cl where
    c0: "c0 = calls @ [(cl, request_for (str ''gpt-4o-mini'') (text p) lang)]"
    by blast
  from Cons.IH [OF rest] obtain new where
    new: "calls1 = c0 @ new"
      "map snd new = map (\<lambda>kp. request_for (str ''gpt-4o-mini'') (text (snd kp)) lang) xs"
    by blast
  have "calls1 = calls @ ((cl, request_for (str ''gpt-4o-mini'') (text p) lang) # new)"
    using new(1) c0 by simp
  moreover have "map snd ((cl, request_for (str ''gpt-4o-mini'') (text p) lang) # new)
      = map (\<lambda>kp. request_for (str ''gpt-4o-mini'') (text (snd kp)) lang) (x # xs)"
    using new(2) x by simp
  ultimately show ?case by blast
qed

lemma rate_all_loop_Inl:
  "rate_all_loop P runtime lang xs results calls = (Inl e, calls') \<Longrightarrow>
   \<exists>pre k p post res calls1.
     xs = pre @ (k, p) # post \<and>
     rate_all_loop P runtime lang pre results calls = (Inr res, calls1) \<and>
     rate_sentiment_with_openai_api P (text p) (str ''gpt-4o-mini'') runtime lang calls1
       = (Inl e, calls')"
proof (induction xs arbitrary: results calls)
  case Nil
  then show ?case by simp
next
  case (Cons x xs)
  obtain k p where x: "x = (k, p)" by (cases x)
  obtain out c0 where run:
    "rate_sentiment_with_openai_api P (text p) (str ''gpt-4o-mini'') runtime lang calls
       = (out, c0)"
    by (cases "rate_sentiment_with_openai_api P (text p) (str ''gpt-4o-mini'') runtime lang calls")
  show ?case
  proof (cases out)
    case (Inl e0)
    with Cons.prems run have "e0 = e" "c0 = calls'" unfolding x by simp_all
    with run Inl have
      "x # xs = [] @ (k, p) # xs \<and>
       rate_all_loop P runtime lang [] results calls = (Inr results, calls) \<and>
       rate_sentiment_with_openai_api P (text p) (str ''gpt-4o-mini'') runtime lang calls
         = (Inl e, calls')"
      using x by simp
    then show ?thesis by blast
  next
    case (Inr r)
    with Cons.prems run have
      "rate_all_loop P runtime lang xs (dict_setitem results k r) c0 = (Inl e, calls')"
      unfolding x by simp
    from Cons.IH [OF this] obtain pre k' p' post res calls1 where
      h: "xs = pre @ (k', p') # post"
         "rate_all_loop P runtime lang pre (dict_setitem results k r) c0 = (Inr res, calls1)"
         "rate_sentiment_with_openai_api P (text p') (str ''gpt-4o-mini'') runtime lang calls1
            = (Inl e, calls')"
      by blast
    have "x # xs = ((k, p) # pre) @ (k', p') # post" using h(1) x by simp
    moreover have "rate_all_loop P runtime lang ((k, p) # pre) results calls = (Inr res, calls1)"
      using run Inr h(2) by simp
    ultimately show ?thesis using h(3) by blast
  qed
qed

lemma parse_6: "parse_rating 4300 (Some (str ''[6]'')) = Inr 6"
  by (simp add: parse_rating_def or_empty_def str_def match_here_def is_decimal_ascii
      py_int_def int_limit_exceeded_def digits_value_def decimal_value_ascii)

section \<open>Helper lemmas on the prompt builder\<close>

lemma en_not_nl: "str ''en'' \<noteq> str ''nl''"
  by (simp add: str_def)

lemma system_prompts_differ:
  "str ''Je bent een expert in de Nederlandse taal die de valentie van Belgisch-Nederlandse teksten analyseert.''
     \<noteq> str ''You are a Dutch language expert analyzing the valence of Belgian Dutch texts.''"
  by (simp add: str_def)

lemma length_str: "length (str a) = length a"
  by (simp add: str_def)

lemma build_prompts_nl:
  "build_prompts txt (str ''nl'') =
        (str ''Je bent een expert in de Nederlandse taal die de valentie van Belgisch-Nederlandse teksten analyseert.'',
         (str ''Deelnemers reageerden op:'' @ [10, 8216] @
          str ''Wat gebeurt er nu of sinds de vorige prompt, en hoe voel je je daarbij?'' @ [8217, 10] @
          str ''Lees de reactie van de deelnemer zorgvuldig: '') @ txt @
         ([10] @
          str ''Jouw taak is om het sentiment te beoordelen van 1 (zeer negatief) tot 7 (zeer positief). Geef ALLEEN '' @
          [233, 233] @
          str ''n numerieke beoordeling terug, ingesloten tussen vierkante haken, bijvoorbeeld [X], zonder aanvullende tekst.'' @
          [10] @ str ''Uitvoerformaat: [getal]''))"
  by (simp add: build_prompts_def str_def)

lemma build_prompts_other:
  "lang \<noteq> str ''nl'' \<Longrightarrow> build_prompts txt lang =
        (str ''You are a Dutch language expert analyzing the valence of Belgian Dutch texts.'',
         (str ''Participants responded to:'' @ [10, 8216] @
          str ''What is going on now or since the last prompt, and how do you feel about it?'' @ [8217, 10] @
          str ''Carefully read the response of the participant: '') @ txt @
         ([10] @
          str ''Your task is to rate its sentiment from 1 (very negative) to 7 (very positive).'' @ [10] @
          str ''Return ONLY a single numerical rating enclosed in brackets, e.g. [X], with no additional text.'' @
          [10] @ str ''Output Format: [number]''))"
  by (simp add: build_prompts_def str_def)

section \<open>The grouper\<close>

text \<open>
  C5. When several entries of the list have the same sentiment score, the
  dictionary the grouper returns holds, at that score, the heading and the
  text of the last of them in list order: for an entry \<open>e\<close> followed by no
  entry of its score, the value at the score of \<open>e\<close> is made of the heading
  and text of \<open>e\<close>, whatever comes before it, and so it is not the value of
  an earlier entry of that score with another heading or text.
\<close>

theorem organize_last_write_wins:
  assumes "\<forall>x \<in> set post. sentiment x \<noteq> sentiment e"
  shows "dict_get (organize_sentiments_by_score (pre @ e # post)) (sentiment e)
           = Some \<lparr>heading = heading e, text = text e\<rparr>
         \<and> (\<forall>x \<in> set pre. heading x \<noteq> heading e \<or> text x \<noteq> text e \<longrightarrow>
               dict_get (organize_sentiments_by_score (pre @ e # post)) (sentiment e)
                 \<noteq> Some \<lparr>heading = heading x, text = text x\<rparr>)"
proof -
  from assms have "sentiment e \<notin> sentiment ` set post" by auto
  then have "map_of (organize_loop post d) (sentiment e) = map_of d (sentiment e)" for d
    by (rule organize_loop_other)
  then have "dict_get (organize_sentiments_by_score (pre @ e # post)) (sentiment e)
               = Some \<lparr>heading = heading e, text = text e\<rparr>"
    by (simp add: dict_get_def organize_sentiments_by_score_def organize_loop_append
        Let_def map_of_setitem)
  then show ?thesis by auto
qed

theorem organize_last_write_wins_witness:
  "list_all (\<lambda>x. sentiment x \<noteq> 7)
     [\<lparr>heading = str ''Very negative'', text = str ''B'', sentiment = 1\<rparr>]
   \<and> dict_get (organize_sentiments_by_score
        [\<lparr>heading = str ''Very positive'', text = str ''A'', sentiment = 7\<rparr>,
         \<lparr>heading = str ''Positive again'', text = str ''C'', sentiment = 7\<rparr>,
         \<lparr>heading = str ''Very negative'', text = str ''B'', sentiment = 1\<rparr>]) 7
       = Some \<lparr>heading = str ''Positive again'', text = str ''C''\<rparr>"
  using organize_last_write_wins
    [of "[\<lparr>heading = str ''Very negative'', text = str ''B'', sentiment = 1\<rparr>]"
        "\<lparr>heading = str ''Positive again'', text = str ''C'', sentiment = 7\<rparr>"
        "[\<lparr>heading = str ''Very positive'', text = str ''A'', sentiment = 7\<rparr>]"]
  by simp

text \<open>
  C6. The keys of the dictionary the grouper returns are exactly the
  sentiment values that occur in the list, each once, so its size is the
  number of distinct sentiment values; a score has no value in the
  dictionary exactly when no entry of the list has it.
\<close>

theorem organize_keys_are_scores:
  "set (dict_keys (organize_sentiments_by_score es)) = sentiment ` set es
   \<and> distinct (dict_keys (organize_sentiments_by_score es))
   \<and> length (organize_sentiments_by_score es) = card (sentiment ` set es)
   \<and> (dict_get (organize_sentiments_by_score es) k = None \<longleftrightarrow> k \<notin> sentiment ` set es)"
proof -
  have a: "set (dict_keys (organize_sentiments_by_score es)) = sentiment ` set es"
    by (simp add: dict_keys_def organize_sentiments_by_score_def organize_loop_keys)
  have b: "distinct (dict_keys (organize_sentiments_by_score es))"
    by (simp add: dict_keys_def organize_sentiments_by_score_def organize_loop_distinct)
  have "length (organize_sentiments_by_score es)
          = length (dict_keys (organize_sentiments_by_score es))"
    by (simp add: dict_keys_def)
  also have "\<dots> = card (set (dict_keys (organize_sentiments_by_score es)))"
    using b by (simp add: distinct_card)
  finally have c: "length (organize_sentiments_by_score es) = card (sentiment ` set es)"
    using a by simp
  have d: "dict_get (organize_sentiments_by_score es) k = None \<longleftrightarrow> k \<notin> sentiment ` set es"
    using a by (simp add: dict_get_def dict_keys_def map_of_eq_None_iff)
  from a b c d show ?thesis by blast
qed

theorem organize_keys_are_scores_witness:
  "set (dict_keys (organize_sentiments_by_score
        [\<lparr>heading = str ''Very positive'', text = str ''A'', sentiment = 7\<rparr>,
         \<lparr>heading = str ''Very negative'', text = str ''B'', sentiment = 1\<rparr>,
         \<lparr>heading = str ''Positive again'', text = str ''C'', sentiment = 7\<rparr>])) = {1, 7}
   \<and> length (organize_sentiments_by_score
        [\<lparr>heading = str ''Very positive'', text = str ''A'', sentiment = 7\<rparr>,
         \<lparr>heading = str ''Very negative'', text = str ''B'', sentiment = 1\<rparr>,
         \<lparr>heading = str ''Positive again'', text = str ''C'', sentiment = 7\<rparr>]) = 2
   \<and> dict_get (organize_sentiments_by_score
        [\<lparr>heading = str ''Very positive'', text = str ''A'', sentiment = 7\<rparr>,
         \<lparr>heading = str ''Very negative'', text = str ''B'', sentiment = 1\<rparr>,
         \<lparr>heading = str ''Positive again'', text = str ''C'', sentiment = 7\<rparr>]) 4 = None"
  using organize_keys_are_scores
    [of "[\<lparr>heading = str ''Very positive'', text = str ''A'', sentiment = 7\<rparr>,
          \<lparr>heading = str ''Very negative'', text = str ''B'', sentiment = 1\<rparr>,
          \<lparr>heading = str ''Positive again'', text = str ''C'', sentiment = 7\<rparr>]" 4]
  by (simp add: insert_commute)

section \<open>The rater\<close>

text \<open>
  C1. Whenever the rater returns a rating, the rating is an integer from 1
  to 7, and it is the clamped value of the bracketed integer found in the
  content of the response: 1 when the parsed value is below 1, 7 when it is
  above 7, the parsed value itself otherwise. The examples of the claim are
  runs of the rater on the contents \<open>[0]\<close>, \<open>[9]\<close> and \<open>[5]\<close>.
\<close>

theorem rater_rating_in_range:
  assumes "rate_sentiment_with_openai_api P txt model runtime lang calls = (Inr r, calls')"
  shows "1 \<le> r \<and> r \<le> 7 \<and>
         (\<exists>cl resp g.
            make_client (environ P) runtime = Inr cl \<and>
            completions_create P calls cl (request_for model txt lang) = Inr resp \<and>
            re_search (or_empty (extract_content resp)) = Some g \<and>
            py_int (int_max_str_digits P) g = Inr (digits_value g) \<and>
            (digits_value g < 1 \<longrightarrow> r = 1) \<and>
            (7 < digits_value g \<longrightarrow> r = 7) \<and>
            (1 \<le> digits_value g \<and> digits_value g \<le> 7 \<longrightarrow> r = digits_value g))"
proof -
  from rater_Inr [OF assms] obtain cl resp where
    cl: "make_client (environ P) runtime = Inr cl" and
    resp: "completions_create P calls cl (request_for model txt lang) = Inr resp" and
    pr: "parse_rating (int_max_str_digits P) (extract_content resp) = Inr r"
    by blast
  from pr obtain g where
    g: "re_search (or_empty (extract_content resp)) = Some g" and
    lim: "\<not> int_limit_exceeded (int_max_str_digits P) g" and
    r: "r = (if digits_value g < 1 then 1 else if 7 < digits_value g then 7 else digits_value g)"
    by (auto simp: parse_rating_Inr)
  from lim have v: "py_int (int_max_str_digits P) g = Inr (digits_value g)"
    by (simp add: py_int_def)
  from r have "1 \<le> r" "r \<le> 7" by (auto split: if_splits)
  moreover from r have "(digits_value g < 1 \<longrightarrow> r = 1) \<and> (7 < digits_value g \<longrightarrow> r = 7) \<and>
      (1 \<le> digits_value g \<and> digits_value g \<le> 7 \<longrightarrow> r = digits_value g)"
    by auto
  ultimately show ?thesis using cl resp g v by blast
qed

theorem rater_rating_in_range_witness:
  "fst (rate_sentiment_with_openai_api (answering (reply (str ''[0]'')))
          (str ''A'') (str ''gpt-4o-mini'') (str ''local'') (str ''en'') []) = Inr 1
   \<and> fst (rate_sentiment_with_openai_api (answering (reply (str ''[9]'')))
          (str ''A'') (str ''gpt-4o-mini'') (str ''local'') (str ''en'') []) = Inr 7
   \<and> fst (rate_sentiment_with_openai_api (answering (reply (str ''[5]'')))
          (str ''A'') (str ''gpt-4o-mini'') (str ''local'') (str ''en'') []) = Inr 5
   \<and> (1::int) \<le> 5 \<and> (5::int) \<le> 7"
proof -
  let ?run = "\<lambda>s. rate_sentiment_with_openai_api (answering (reply (str s)))
          (str ''A'') (str ''gpt-4o-mini'') (str ''local'') (str ''en'') []"
  have r0: "fst (?run ''[0]'') = Inr 1"
    by (simp add: answering_run local_not_cloud extract_reply parse_0)
  have r9: "fst (?run ''[9]'') = Inr 7"
    by (simp add: answering_run local_not_cloud extract_reply parse_9)
  have r5: "fst (?run ''[5]'') = Inr 5"
    by (simp add: answering_run local_not_cloud extract_reply parse_5)
  then have "?run ''[5]'' = (Inr 5, snd (?run ''[5]''))"
    by (metis prod.collapse)
  from rater_rating_in_range [OF this] r0 r9 r5 show ?thesis by simp
qed







text \<open>
  C4. A bracketed number with a minus sign is not a match: the content
  \<open>[-ds]\<close>, for any digits \<open>ds\<close>, ends in the parsing error and is not clamped
  to 1. The group of a match holds no minus sign and its value is not
  negative, so the branch for a value below 1 is taken only for the value 0,
  that is when every digit of the group is a zero, as in \<open>[0]\<close> and \<open>[00]\<close>.
\<close>

theorem bracketed_negative_not_parsed:
  "(list_all is_decimal ds \<longrightarrow>
      parse_rating lim (Some (91 # 45 # ds @ [93]))
        = Inl (ParseError (Some (91 # 45 # ds @ [93]))))
   \<and> (re_search s = Some g \<longrightarrow>
        45 \<notin> set g \<and> 0 \<le> digits_value g \<and>
        (digits_value g < 1 \<longrightarrow> digits_value g = 0) \<and>
        (digits_value g < 1 \<longleftrightarrow> list_all (\<lambda>c. decimal_value c = 0) g))"
proof -
  have a: "parse_rating lim (Some (91 # 45 # ds @ [93]))
             = Inl (ParseError (Some (91 # 45 # ds @ [93])))"
    if "list_all is_decimal ds"
    using re_search_minus [OF that] by (simp add: parse_rating_def or_empty_def)
  have nn: "0 \<le> digits_value g"
    using digits_value_fold_nonneg [of 0 g] by (simp add: digits_value_def)
  then have z: "digits_value g < 1 \<longleftrightarrow> digits_value g = 0" by auto
  have "digits_value g < 1 \<longleftrightarrow> list_all (\<lambda>c. decimal_value c = 0) g"
    unfolding z by (rule digits_value_zero_iff)
  with a nn z group_no_minus [of s g] show ?thesis by blast
qed

theorem bracketed_negative_not_parsed_witness:
  "fst (rate_sentiment_with_openai_api (answering (reply (str ''[-3]'')))
          (str ''A'') (str ''gpt-4o-mini'') (str ''local'') (str ''en'') [])
     = Inl (ParseError (Some (str ''[-3]'')))
   \<and> fst (rate_sentiment_with_openai_api (answering (reply (str ''[0]'')))
          (str ''A'') (str ''gpt-4o-mini'') (str ''local'') (str ''en'') []) = Inr 1
   \<and> fst (rate_sentiment_with_openai_api (answering (reply (str ''[00]'')))
          (str ''A'') (str ''gpt-4o-mini'') (str ''local'') (str ''en'') []) = Inr 1"
proof -
  have "parse_rating 4300 (Some (str ''[-3]'')) = Inl (ParseError (Some (str ''[-3]'')))"
    using bracketed_negative_not_parsed [where ds = "str ''3''" and lim = 4300] decimal_3
    unfolding str_minus_3 by blast
  then show ?thesis
    by (simp add: answering_run local_not_cloud extract_reply parse_0 parse_00)
qed

text \<open>
  C10. For every runtime other than \<open>cloud\<close>, so for \<open>local\<close>, the rater
  builds a client whose key is \<open>OPENAI_API_KEY\<close> when that variable is set,
  else \<open>LOCAL_OPENAI_API_KEY\<close> when that one is set, else \<open>sk-local\<close>, and
  whose base address is \<open>LOCAL_OPENAI_BASE_URL\<close> when set, else
  \<open>http://localhost:8000/v1\<close>; with the SDK present it sends its request
  through this client; and it never ends in the error for a missing
  credential.
\<close>

theorem local_runtime_credentials:
  assumes "runtime \<noteq> str ''cloud''"
  shows "\<exists>cl. make_client (environ P) runtime = Inr cl
     \<and> api_key cl =
          (case environ P (str ''OPENAI_API_KEY'') of
             Some k \<Rightarrow> k
           | None \<Rightarrow>
               (case environ P (str ''LOCAL_OPENAI_API_KEY'') of
                  Some k \<Rightarrow> k
                | None \<Rightarrow> str ''sk-local''))
     \<and> base_url cl =
          Some (case environ P (str ''LOCAL_OPENAI_BASE_URL'') of
                  Some u \<Rightarrow> u
                | None \<Rightarrow> str ''http://localhost:8000/v1'')
     \<and> (sdk_present P \<longrightarrow>
          snd (rate_sentiment_with_openai_api P txt model runtime lang calls)
            = calls @ [(cl, request_for model txt lang)])
     \<and> fst (rate_sentiment_with_openai_api P txt model runtime lang calls)
          \<noteq> Inl MissingCredential"
proof -
  let ?cl = "\<lparr>api_key = getenv_default (environ P) (str ''OPENAI_API_KEY'')
                       (getenv_default (environ P) (str ''LOCAL_OPENAI_API_KEY'') (str ''sk-local'')),
          base_url = Some (getenv_default (environ P) (str ''LOCAL_OPENAI_BASE_URL'')
                       (str ''http://localhost:8000/v1''))\<rparr>"
  have mk: "make_client (environ P) runtime = Inr ?cl"
    using assms by (rule make_client_local)
  have k: "api_key ?cl =
          (case environ P (str ''OPENAI_API_KEY'') of
             Some k \<Rightarrow> k
           | None \<Rightarrow>
               (case environ P (str ''LOCAL_OPENAI_API_KEY'') of
                  Some k \<Rightarrow> k
                | None \<Rightarrow> str ''sk-local''))"
    by (simp add: getenv_default_def)
  have u: "base_url ?cl =
          Some (case environ P (str ''LOCAL_OPENAI_BASE_URL'') of
                  Some u \<Rightarrow> u
                | None \<Rightarrow> str ''http://localhost:8000/v1'')"
    by (simp add: getenv_default_def)
  have c: "snd (rate_sentiment_with_openai_api P txt model runtime lang calls)
            = calls @ [(?cl, request_for model txt lang)]" if "sdk_present P"
    unfolding rater_run [OF that mk] by simp
  have e: "fst (rate_sentiment_with_openai_api P txt model runtime lang calls)
          \<noteq> Inl MissingCredential"
  proof (cases "sdk_present P")
    case True
    show ?thesis
      unfolding rater_run [OF True mk]
      by (auto simp: parse_rating_def py_int_def split: sum.splits option.splits)
  next
    case False
    then show ?thesis by (simp add: rater_no_sdk)
  qed
  from mk k u c e show ?thesis by blast
qed


theorem local_runtime_credentials_witness:
  "str ''local'' \<noteq> str ''cloud''
   \<and> (\<exists>cl. make_client
               [str ''LOCAL_OPENAI_API_KEY'' \<mapsto> str ''sk-mine'',
                str ''OPENAI_API_KEY'' \<mapsto> str ''sk-cloud'']
               (str ''local'') = Inr cl
          \<and> api_key cl = str ''sk-cloud''
          \<and> base_url cl = Some (str ''http://localhost:8000/v1''))
   \<and> (\<exists>cl. make_client
               [str ''LOCAL_OPENAI_API_KEY'' \<mapsto> str ''sk-mine'',
                str ''LOCAL_OPENAI_BASE_URL'' \<mapsto> str ''http://10.0.0.2:9000/v1'']
               (str ''local'') = Inr cl
          \<and> api_key cl = str ''sk-mine''
          \<and> base_url cl = Some (str ''http://10.0.0.2:9000/v1''))
   \<and> (\<exists>cl. make_client Map.empty (str ''local'') = Inr cl
          \<and> api_key cl = str ''sk-local''
          \<and> base_url cl = Some (str ''http://localhost:8000/v1''))"
proof -
  let ?P = "\<lambda>env. \<lparr>sdk_present = True, environ = env,
                   completions_create = (\<lambda>calls cl req. Inr (reply (str ''[4]''))),
                   int_max_str_digits = 4300\<rparr>"
  have a: "\<exists>cl. make_client
               [str ''LOCAL_OPENAI_API_KEY'' \<mapsto> str ''sk-mine'',
                str ''OPENAI_API_KEY'' \<mapsto> str ''sk-cloud'']
               (str ''local'') = Inr cl
          \<and> api_key cl = str ''sk-cloud''
          \<and> base_url cl = Some (str ''http://localhost:8000/v1'')"
    using local_runtime_credentials [OF local_not_cloud,
        of "?P [str ''LOCAL_OPENAI_API_KEY'' \<mapsto> str ''sk-mine'',
                str ''OPENAI_API_KEY'' \<mapsto> str ''sk-cloud'']"
           "str ''A''" "str ''gpt-4o-mini''" "str ''en''" "[]"]
    by (auto simp: str_def)
  have b: "\<exists>cl. make_client
               [str ''LOCAL_OPENAI_API_KEY'' \<mapsto> str ''sk-mine'',
                str ''LOCAL_OPENAI_BASE_URL'' \<mapsto> str ''http://10.0.0.2:9000/v1'']
               (str ''local'') = Inr cl
          \<and> api_key cl = str ''sk-mine''
          \<and> base_url cl = Some (str ''http://10.0.0.2:9000/v1'')"
    using local_runtime_credentials [OF local_not_cloud,
        of "?P [str ''LOCAL_OPENAI_API_KEY'' \<mapsto> str ''sk-mine'',
                str ''LOCAL_OPENAI_BASE_URL'' \<mapsto> str ''http://10.0.0.2:9000/v1'']"
           "str ''A''" "str ''gpt-4o-mini''" "str ''en''" "[]"]
    by (auto simp: str_def)
  have c: "\<exists>cl. make_client Map.empty (str ''local'') = Inr cl
          \<and> api_key cl = str ''sk-local''
          \<and> base_url cl = Some (str ''http://localhost:8000/v1'')"
    using local_runtime_credentials [OF local_not_cloud,
        of "?P Map.empty" "str ''A''" "str ''gpt-4o-mini''" "str ''en''" "[]"]
    by auto
  from a b c local_not_cloud show ?thesis by blast
qed


section \<open>The batch rater\<close>

text \<open>
  C9. The batch rater takes the entries of the dictionary in iteration
  order and calls the rater once for each. When it returns results, the
  requests it has sent are those for the texts of the entries, one each, in
  that order. When the entries before some entry are rated and the rater
  fails on that entry, the batch ends in that same error, with the calls
  made up to and including that of the failing entry and none for the
  entries after it, and no results are returned. Every error of the batch
  arises in this way, from the first entry the rater fails on.
\<close>

theorem batch_stops_at_first_failure:
  "(rate_all_texts P organized runtime lang calls = (Inr results, calls') \<longrightarrow>
      (\<exists>new. calls' = calls @ new \<and>
         map snd new =
           map (\<lambda>kp. request_for (str ''gpt-4o-mini'') (text (snd kp)) lang) organized))
   \<and> (rate_all_texts P pre runtime lang calls = (Inr res, calls1) \<and>
       rate_sentiment_with_openai_api P (text p) (str ''gpt-4o-mini'') runtime lang calls1
         = (Inl e, calls2) \<longrightarrow>
       rate_all_texts P (pre @ (k, p) # post) runtime lang calls = (Inl e, calls2) \<and>
       (\<exists>new. calls1 = calls @ new \<and>
          map snd new = map (\<lambda>kp. request_for (str ''gpt-4o-mini'') (text (snd kp)) lang) pre) \<and>
       (calls2 = calls1 \<or>
        (\<exists>cl. calls2 = calls1 @ [(cl, request_for (str ''gpt-4o-mini'') (text p) lang)])))
   \<and> (rate_all_texts P organized runtime lang calls = (Inl e', calls') \<longrightarrow>
       (\<exists>pre k p post res calls1.
          organized = pre @ (k, p) # post \<and>
          rate_all_texts P pre runtime lang calls = (Inr res, calls1) \<and>
          rate_sentiment_with_openai_api P (text p) (str ''gpt-4o-mini'') runtime lang calls1
            = (Inl e', calls')))"
proof -
  have a: "\<exists>new. calls' = calls @ new \<and>
         map snd new =
           map (\<lambda>kp. request_for (str ''gpt-4o-mini'') (text (snd kp)) lang) organized"
    if "rate_all_texts P organized runtime lang calls = (Inr results, calls')"
    using that unfolding rate_all_texts_def by (rule rate_all_loop_requests)
  have b: "rate_all_texts P (pre @ (k, p) # post) runtime lang calls = (Inl e, calls2) \<and>
       (\<exists>new. calls1 = calls @ new \<and>
          map snd new = map (\<lambda>kp. request_for (str ''gpt-4o-mini'') (text (snd kp)) lang) pre) \<and>
       (calls2 = calls1 \<or>
        (\<exists>cl. calls2 = calls1 @ [(cl, request_for (str ''gpt-4o-mini'') (text p) lang)]))"
    if pre: "rate_all_texts P pre runtime lang calls = (Inr res, calls1)"
    and fail: "rate_sentiment_with_openai_api P (text p) (str ''gpt-4o-mini'') runtime lang calls1
         = (Inl e, calls2)"
  proof -
    have "rate_all_texts P (pre @ (k, p) # post) runtime lang calls = (Inl e, calls2)"
      using pre fail unfolding rate_all_texts_def by (simp add: rate_all_loop_append)
    moreover have "\<exists>new. calls1 = calls @ new \<and>
          map snd new = map (\<lambda>kp. request_for (str ''gpt-4o-mini'') (text (snd kp)) lang) pre"
      using pre unfolding rate_all_texts_def by (rule rate_all_loop_requests)
    moreover have "calls2 = calls1 \<or>
        (\<exists>cl. calls2 = calls1 @ [(cl, request_for (str ''gpt-4o-mini'') (text p) lang)])"
      using rater_calls [of P "text p" "str ''gpt-4o-mini''" runtime lang calls1] fail by simp
    ultimately show ?thesis by blast
  qed
  have c: "\<exists>pre k p post res calls1.
          organized = pre @ (k, p) # post \<and>
          rate_all_texts P pre runtime lang calls = (Inr res, calls1) \<and>
          rate_sentiment_with_openai_api P (text p) (str ''gpt-4o-mini'') runtime lang calls1
            = (Inl e', calls')"
    if "rate_all_texts P organized runtime lang calls = (Inl e', calls')"
    using that unfolding rate_all_texts_def by (rule rate_all_loop_Inl)
  from a b c show ?thesis by blast
qed


theorem batch_stops_at_first_failure_witness:
  "rate_all_texts flaky
      [(7, \<lparr>heading = str ''Very positive'', text = str ''A''\<rparr>)]
      (str ''local'') (str ''en'') []
     = (Inr [(7, 6)],
        [(\<lparr>api_key = str ''sk-local'', base_url = Some (str ''http://localhost:8000/v1'')\<rparr>,
          request_for (str ''gpt-4o-mini'') (str ''A'') (str ''en''))])
   \<and> rate_all_texts flaky
      [(7, \<lparr>heading = str ''Very positive'', text = str ''A''\<rparr>),
       (1, \<lparr>heading = str ''Very negative'', text = str ''B''\<rparr>),
       (4, \<lparr>heading = str ''Neutral'', text = str ''C''\<rparr>)]
      (str ''local'') (str ''en'') []
     = (Inl (CompletionError (str ''timed out'')),
        [(\<lparr>api_key = str ''sk-local'', base_url = Some (str ''http://localhost:8000/v1'')\<rparr>,
          request_for (str ''gpt-4o-mini'') (str ''A'') (str ''en'')),
         (\<lparr>api_key = str ''sk-local'', base_url = Some (str ''http://localhost:8000/v1'')\<rparr>,
          request_for (str ''gpt-4o-mini'') (str ''B'') (str ''en''))])"
proof -
  let ?L = "\<lparr>api_key = str ''sk-local'', base_url = Some (str ''http://localhost:8000/v1'')\<rparr>"
  let ?req = "\<lambda>t. request_for (str ''gpt-4o-mini'') (str t) (str ''en'')"
  have sdk: "sdk_present flaky" by (simp add: flaky_def)
  have mk: "make_client (environ flaky) (str ''local'') = Inr ?L"
    by (simp add: flaky_def make_client_local local_not_cloud getenv_default_def)
  have r1: "rate_sentiment_with_openai_api flaky (str ''A'') (str ''gpt-4o-mini'')
              (str ''local'') (str ''en'') [] = (Inr 6, [(?L, ?req ''A'')])"
    unfolding rater_run [OF sdk mk] by (simp add: flaky_def extract_reply parse_6)
  have r2: "rate_sentiment_with_openai_api flaky
              (text \<lparr>heading = str ''Very negative'', text = str ''B''\<rparr>)
              (str ''gpt-4o-mini'') (str ''local'') (str ''en'') [(?L, ?req ''A'')]
            = (Inl (CompletionError (str ''timed out'')), [(?L, ?req ''A''), (?L, ?req ''B'')])"
    unfolding rater_run [OF sdk mk] by (simp add: flaky_def)
  have pre: "rate_all_texts flaky
      [(7, \<lparr>heading = str ''Very positive'', text = str ''A''\<rparr>)]
      (str ''local'') (str ''en'') [] = (Inr [(7, 6)], [(?L, ?req ''A'')])"
    by (simp add: rate_all_texts_def r1)
  have "rate_all_texts flaky
      ([(7, \<lparr>heading = str ''Very positive'', text = str ''A''\<rparr>)]
       @ (1, \<lparr>heading = str ''Very negative'', text = str ''B''\<rparr>)
       # [(4, \<lparr>heading = str ''Neutral'', text = str ''C''\<rparr>)])
      (str ''local'') (str ''en'') []
     = (Inl (CompletionError (str ''timed out'')), [(?L, ?req ''A''), (?L, ?req ''B'')])"
    using batch_stops_at_first_failure
      [where P = flaky and runtime = "str ''local''" and lang = "str ''en''" and calls = "[]"
         and pre = "[(7, \<lparr>heading = str ''Very positive'', text = str ''A''\<rparr>)]"
         and res = "[(7, 6)]" and ?calls1.0 = "[(?L, ?req ''A'')]"
         and p = "\<lparr>heading = str ''Very negative'', text = str ''B''\<rparr>"
         and e = "CompletionError (str ''timed out'')"
         and ?calls2.0 = "[(?L, ?req ''A''), (?L, ?req ''B'')]"
         and k = 1 and post = "[(4, \<lparr>heading = str ''Neutral'', text = str ''C''\<rparr>)]"]
      pre r2
    by blast
  with pre show ?thesis by simp
qed


section \<open>The prompt builder\<close>

text \<open>
  C8. For every text, the empty one included, and every language tag, the
  prompt builder returns one of two pairs: for the tag \<open>nl\<close> the Dutch system
  prompt and the Dutch user prompt, for every other tag the English system
  prompt and the English user prompt, each user prompt being its fixed text
  before and its fixed text after the input text. The two pairs differ, the
  lengths are those of the literals of \<open>prompts.py\<close> (102 and 382 code
  points in Dutch, 77 and 353 in English, without the text), and the input
  text is a contiguous part of the user prompt.
\<close>

theorem build_prompts_two_templates:
  "(lang = str ''nl'' \<longrightarrow>
      build_prompts txt lang =
        (str ''Je bent een expert in de Nederlandse taal die de valentie van Belgisch-Nederlandse teksten analyseert.'',
         (str ''Deelnemers reageerden op:'' @ [10, 8216] @
          str ''Wat gebeurt er nu of sinds de vorige prompt, en hoe voel je je daarbij?'' @ [8217, 10] @
          str ''Lees de reactie van de deelnemer zorgvuldig: '') @ txt @
         ([10] @
          str ''Jouw taak is om het sentiment te beoordelen van 1 (zeer negatief) tot 7 (zeer positief). Geef ALLEEN '' @
          [233, 233] @
          str ''n numerieke beoordeling terug, ingesloten tussen vierkante haken, bijvoorbeeld [X], zonder aanvullende tekst.'' @
          [10] @ str ''Uitvoerformaat: [getal]'')))
   \<and> (lang \<noteq> str ''nl'' \<longrightarrow>
      build_prompts txt lang =
        (str ''You are a Dutch language expert analyzing the valence of Belgian Dutch texts.'',
         (str ''Participants responded to:'' @ [10, 8216] @
          str ''What is going on now or since the last prompt, and how do you feel about it?'' @ [8217, 10] @
          str ''Carefully read the response of the participant: '') @ txt @
         ([10] @
          str ''Your task is to rate its sentiment from 1 (very negative) to 7 (very positive).'' @ [10] @
          str ''Return ONLY a single numerical rating enclosed in brackets, e.g. [X], with no additional text.'' @
          [10] @ str ''Output Format: [number]'')))
   \<and> build_prompts txt (str ''nl'') \<noteq> build_prompts txt (str ''en'')
   \<and> length (fst (build_prompts txt (str ''nl''))) = 102
   \<and> length (snd (build_prompts txt (str ''nl''))) = 382 + length txt
   \<and> length (fst (build_prompts txt (str ''en''))) = 77
   \<and> length (snd (build_prompts txt (str ''en''))) = 353 + length txt
   \<and> sublist txt (snd (build_prompts txt lang))"
proof -
  have d: "build_prompts txt (str ''nl'') \<noteq> build_prompts txt (str ''en'')"
  proof
    assume "build_prompts txt (str ''nl'') = build_prompts txt (str ''en'')"
    then have "fst (build_prompts txt (str ''nl'')) = fst (build_prompts txt (str ''en''))"
      by simp
    then show False
      using system_prompts_differ
      by (simp add: build_prompts_nl build_prompts_other [OF en_not_nl])
  qed
  have l: "length (fst (build_prompts txt (str ''nl''))) = 102"
    "length (snd (build_prompts txt (str ''nl''))) = 382 + length txt"
    by (simp_all add: build_prompts_nl length_str)
  have m: "length (fst (build_prompts txt (str ''en''))) = 77"
    "length (snd (build_prompts txt (str ''en''))) = 353 + length txt"
    by (simp_all add: build_prompts_other [OF en_not_nl] length_str)
  have g: "sublist txt (snd (build_prompts txt lang))"
  proof (cases "lang = str ''nl''")
    case True
    show ?thesis unfolding True build_prompts_nl snd_conv by (rule sublist_appendI)
  next
    case False
    show ?thesis unfolding build_prompts_other [OF False] snd_conv by (rule sublist_appendI)
  qed
  from d l m g build_prompts_nl [of "txt"] build_prompts_other [of lang "txt"]
  show ?thesis by blast
qed

theorem build_prompts_two_templates_witness:
  "build_prompts [] (str ''fr'') = build_prompts [] (str ''en'')
   \<and> build_prompts (str ''Het gaat goed.'') (str ''nl'')
        \<noteq> build_prompts (str ''Het gaat goed.'') (str ''en'')
   \<and> length (snd (build_prompts (str ''Het gaat goed.'') (str ''nl''))) = 396
   \<and> sublist (str ''Het gaat goed.'') (snd (build_prompts (str ''Het gaat goed.'') (str ''nl'')))
   \<and> sublist [] (snd (build_prompts [] (str ''fr'')))"
proof -
  have fr: "str ''fr'' \<noteq> str ''nl''" by (simp add: str_def)
  have a: "build_prompts [] (str ''fr'') = build_prompts [] (str ''en'')"
    using build_prompts_two_templates [of "str ''fr''" "[]"]
      build_prompts_two_templates [of "str ''en''" "[]"] fr en_not_nl
    by simp
  have b: "sublist [] (snd (build_prompts [] (str ''fr'')))"
    using build_prompts_two_templates [of "str ''fr''" "[]"] by blast
  from build_prompts_two_templates [of "str ''nl''" "str ''Het gaat goed.''"]
  have c: "build_prompts (str ''Het gaat goed.'') (str ''nl'')
        \<noteq> build_prompts (str ''Het gaat goed.'') (str ''en'')"
    and d: "sublist (str ''Het gaat goed.'')
              (snd (build_prompts (str ''Het gaat goed.'') (str ''nl'')))"
    and e: "length (snd (build_prompts (str ''Het gaat goed.'') (str ''nl'')))
              = 382 + length (str ''Het gaat goed.'')"
    by blast+
  from e have f: "length (snd (build_prompts (str ''Het gaat goed.'') (str ''nl''))) = 396"
    by (simp add: length_str)
  from a b c d f show ?thesis by blast
qed


end
